theory Spec2Isabelle
  imports Complex_Main
begin

section \<open>Conventions of the embedding\<close>

text \<open>
  The Python modules \<^verbatim>\<open>commvalues.py\<close>, \<^verbatim>\<open>presentvalues.py\<close> and
  \<^verbatim>\<open>premium_and_progress_values.py\<close> are embedded function by function, and the two
  premium functions of \<^verbatim>\<open>outfunc.py\<close> after them.

  \<^item> A Python \<^verbatim>\<open>float\<close> is modelled as a \<open>real\<close>: arithmetic is exact, there is no
    overflow, infinity or NaN. Everything below is a statement about this idealised
    arithmetic. A float division raises \<^verbatim>\<open>ZeroDivisionError\<close> on a zero divisor; that
    branch is written out (\<open>py_div\<close>).
  \<^item> A Python \<^verbatim>\<open>int\<close> is an \<open>int\<close>; a \<^verbatim>\<open>str\<close> is a \<open>string\<close> of 8-bit characters.
    \<open>py_upper\<close> maps the letters a to z to A to Z and leaves every other character as it
    is; \<open>py_strip\<close> removes the ASCII white space at both ends.
  \<^item> An exception is a value \<open>Inl e\<close> of \<open>py_error + 'a\<close>.
  \<^item> \<^verbatim>\<open>constants.py\<close> is not part of the sources at hand; its constants are the
    fields of the record \<open>env\<close>. The mortality tables (the dictionary \<^verbatim>\<open>_qx_tables\<close> as
    it is after \<^verbatim>\<open>_load_mortality_tables_if_needed\<close> has run) are the field
    \<open>qx_tables\<close>; reading the XML file is outside the model. Python's formatting of a
    float inside an f-string is the field \<open>float_str\<close>.
\<close>

datatype py_error = ValueError | KeyError | IndexError | ZeroDivisionError

record env =
  ROUND_LX :: int
  ROUND_TX :: int
  ROUND_DX :: int
  ROUND_CX :: int
  ROUND_NX :: int
  ROUND_MX :: int
  ROUND_RX :: int
  MAX_AGE :: nat
  qx_tables :: "string \<rightharpoonup> real list"
  float_str :: "real \<Rightarrow> string"

subsection \<open>Exceptions in pure code\<close>

definition bindE :: "py_error + 'a \<Rightarrow> ('a \<Rightarrow> py_error + 'b) \<Rightarrow> py_error + 'b" where
  "bindE m f = (case m of Inl e \<Rightarrow> Inl e | Inr v \<Rightarrow> f v)"

text \<open>\<^verbatim>\<open>for i in xs: s = body(i, s)\<close>, stopping at the first exception.\<close>

fun for_each :: "'i list \<Rightarrow> ('i \<Rightarrow> 's \<Rightarrow> py_error + 's) \<Rightarrow> 's \<Rightarrow> py_error + 's" where
  "for_each [] body s = Inr s"
| "for_each (i # is) body s =
     (case body i s of Inl e \<Rightarrow> Inl e | Inr s' \<Rightarrow> for_each is body s')"

definition py_div :: "real \<Rightarrow> real \<Rightarrow> py_error + real" where
  "py_div a b = (if b = 0 then Inl ZeroDivisionError else Inr (a / b))"

text \<open>\<^verbatim>\<open>xs[i]\<close>: a negative index counts from the end, an index out of range raises.\<close>

definition py_index :: "'a list \<Rightarrow> int \<Rightarrow> py_error + 'a" where
  "py_index xs i =
     (if 0 \<le> i \<and> i < int (length xs) then Inr (xs ! nat i)
      else if i < 0 \<and> - int (length xs) \<le> i then Inr (xs ! nat (int (length xs) + i))
      else Inl IndexError)"

subsection \<open>Strings\<close>

definition is_space :: "char \<Rightarrow> bool" where
  "is_space c \<longleftrightarrow> c \<in> set [CHR 0x09, CHR 0x0A, CHR 0x0B, CHR 0x0C, CHR 0x0D,
                            CHR 0x1C, CHR 0x1D, CHR 0x1E, CHR 0x1F, CHR 0x20]"

definition py_strip :: "string \<Rightarrow> string" where
  "py_strip s = rev (dropWhile is_space (rev (dropWhile is_space s)))"

definition upper_char :: "char \<Rightarrow> char" where
  "upper_char c =
     (case map_of (zip ''abcdefghijklmnopqrstuvwxyz'' ''ABCDEFGHIJKLMNOPQRSTUVWXYZ'') c of
        Some u \<Rightarrow> u | None \<Rightarrow> c)"

definition py_upper :: "string \<Rightarrow> string" where
  "py_upper s = map upper_char s"

text \<open>\<^verbatim>\<open>str(n)\<close> for an integer.\<close>

fun str_nat :: "nat \<Rightarrow> string" where
  "str_nat n =
     (if n < 10 then [''0123456789'' ! n]
      else str_nat (n div 10) @ [''0123456789'' ! (n mod 10)])"

definition str_int :: "int \<Rightarrow> string" where
  "str_int i = (if i < 0 then CHR ''-'' # str_nat (nat (- i)) else str_nat (nat i))"

section \<open>commvalues.py\<close>

subsection \<open>Rounding\<close>

definition pow10 :: "int \<Rightarrow> real" where
  "pow10 d = (if 0 \<le> d then 10 ^ nat d else 1 / 10 ^ nat (- d))"

text \<open>
  \<^verbatim>\<open>_excel_round(value, digits)\<close> quantizes \<^verbatim>\<open>Decimal(str(value))\<close> to \<open>digits\<close> decimal
  places with \<^verbatim>\<open>ROUND_HALF_UP\<close> (ties go away from zero).
\<close>

definition excel_round :: "real \<Rightarrow> int \<Rightarrow> real" where
  "excel_round v digits =
     sgn v * of_int \<lfloor>\<bar>v\<bar> * pow10 digits + 1 / 2\<rfloor> / pow10 digits"

subsection \<open>Mortality rates\<close>

definition Act_qx :: "env \<Rightarrow> int \<Rightarrow> string \<Rightarrow> string \<Rightarrow> int \<Rightarrow> int \<Rightarrow> int \<Rightarrow> py_error + real" where
  "Act_qx E Age Sex TableId BirthYear RetirementAge Layer =
     (let sex0 = py_upper (py_strip Sex);
          sex = (if sex0 \<noteq> ''M'' then ''F'' else sex0);
          table_id = py_upper (py_strip TableId)
      in if table_id \<in> set [''DAV1994_T'', ''DAV2008_T''] then
           (let table_vector = table_id @ ''_'' @ sex
            in case qx_tables E table_vector of
                 None \<Rightarrow> Inl KeyError
               | Some vec \<Rightarrow>
                   if Age < 0 \<or> Age \<ge> int (length vec) then Inl IndexError
                   else Inr (vec ! nat Age))
         else Inl ValueError)"

subsection \<open>Survivors and deaths\<close>

definition Vec_lx :: "env \<Rightarrow> int \<Rightarrow> string \<Rightarrow> string \<Rightarrow> int \<Rightarrow> int \<Rightarrow> int \<Rightarrow> py_error + real list" where
  "Vec_lx E EndAge Sex TableId BirthYear RetirementAge Layer =
     (let limit = (if EndAge = -1 then int (MAX_AGE E) else EndAge)
      in if limit < 0 then Inl ValueError
         else for_each [1 ..< nat limit + 1]
                (\<lambda>i vec.
                   bindE (Act_qx E (int i - 1) Sex TableId BirthYear RetirementAge Layer)
                     (\<lambda>qx. Inr (vec[i := excel_round (vec ! (i - 1) * (1 - qx)) (ROUND_LX E)])))
                ((replicate (nat limit + 1) 0)[0 := 1000000]))"


definition Vec_tx :: "env \<Rightarrow> int \<Rightarrow> string \<Rightarrow> string \<Rightarrow> int \<Rightarrow> int \<Rightarrow> int \<Rightarrow> py_error + real list" where
  "Vec_tx E EndAge Sex TableId BirthYear RetirementAge Layer =
     (let limit = (if EndAge = -1 then int (MAX_AGE E) else EndAge)
      in if limit < 0 then Inl ValueError
         else bindE (Vec_lx E limit Sex TableId BirthYear RetirementAge Layer)
                (\<lambda>tempLx.
                   Inr (fold (\<lambda>i vec. vec[i := excel_round (tempLx ! i - tempLx ! (i + 1)) (ROUND_TX E)])
                          [0 ..< nat limit]
                          (replicate (nat limit + 1) 0))))"

definition Act_tx :: "env \<Rightarrow> int \<Rightarrow> string \<Rightarrow> string \<Rightarrow> int \<Rightarrow> int \<Rightarrow> int \<Rightarrow> py_error + real" where
  "Act_tx E Age Sex TableId BirthYear RetirementAge Layer =
     bindE (Vec_tx E Age Sex TableId BirthYear RetirementAge Layer) (\<lambda>vec. py_index vec Age)"

subsection \<open>Discounted survivors\<close>

definition Vec_Dx :: "env \<Rightarrow> int \<Rightarrow> string \<Rightarrow> string \<Rightarrow> real \<Rightarrow> int \<Rightarrow> int \<Rightarrow> int \<Rightarrow> py_error + real list" where
  "Vec_Dx E EndAge Sex TableId InterestRate BirthYear RetirementAge Layer =
     (let limit = (if EndAge = -1 then int (MAX_AGE E) else EndAge)
      in if limit < 0 then Inl ValueError
         else bindE (py_div 1 (1 + InterestRate))
                (\<lambda>v. bindE (Vec_lx E limit Sex TableId BirthYear RetirementAge Layer)
                   (\<lambda>tempLx.
                      Inr (fold (\<lambda>i vec. vec[i := excel_round (tempLx ! i * v ^ i) (ROUND_DX E)])
                             [0 ..< nat limit + 1]
                             (replicate (nat limit + 1) 0)))))"

subsection \<open>The cache\<close>

text \<open>
  The module keeps the global \<^verbatim>\<open>cache\<close>, \<^verbatim>\<open>None\<close> until \<^verbatim>\<open>InitializeCache\<close> has run.
  The field \<open>builds\<close> is not in the source: it counts the calls of the vector builders
  made by the memoized accessors, so that "the builder is not invoked" can be stated.
\<close>

record state =
  cache :: "(string \<rightharpoonup> real) option"
  builds :: nat

type_synonym 'a M = "state \<Rightarrow> (py_error + 'a) \<times> state"

definition returnM :: "'a \<Rightarrow> 'a M" where
  "returnM v s = (Inr v, s)"

definition liftE :: "py_error + 'a \<Rightarrow> 'a M" where
  "liftE r s = (r, s)"

definition bindM :: "'a M \<Rightarrow> ('a \<Rightarrow> 'b M) \<Rightarrow> 'b M" where
  "bindM m f s = (case m s of (Inl e, s') \<Rightarrow> (Inl e, s') | (Inr v, s') \<Rightarrow> f v s')"

definition InitializeCache :: "state \<Rightarrow> state" where
  "InitializeCache s = s\<lparr>cache := Some Map.empty\<rparr>"

definition ensure_cache :: "state \<Rightarrow> state" where
  "ensure_cache s = (case cache s of None \<Rightarrow> InitializeCache s | Some c \<Rightarrow> s)"

definition BuildCacheKey :: "env \<Rightarrow> string \<Rightarrow> int \<Rightarrow> string \<Rightarrow> string \<Rightarrow> real \<Rightarrow> int \<Rightarrow> int \<Rightarrow> int \<Rightarrow> string" where
  "BuildCacheKey E Kind Age Sex TableId InterestRate BirthYear RetirementAge Layer =
     Kind @ ''_'' @ str_int Age @ ''_'' @ Sex @ ''_'' @ TableId @ ''_'' @ float_str E InterestRate
       @ ''_'' @ str_int BirthYear @ ''_'' @ str_int RetirementAge @ ''_'' @ str_int Layer"

text \<open>
  The five memoized accessors share one body: after \<^verbatim>\<open>_ensure_cache()\<close>, a key that is in
  the cache is answered from it; otherwise the vector is built, \<^verbatim>\<open>vec[Age]\<close> is read,
  stored under the key and returned. \<open>build\<close> is the builder call followed by the
  extraction; an exception raised there leaves the cache as \<^verbatim>\<open>_ensure_cache\<close> left it.
\<close>

definition memo :: "string \<Rightarrow> (py_error + real) \<Rightarrow> real M" where
  "memo key build s0 =
     (let s = ensure_cache s0;
          c = (case cache s of None \<Rightarrow> Map.empty | Some c \<Rightarrow> c)
      in case c key of
           Some v \<Rightarrow> (Inr v, s)
         | None \<Rightarrow>
             (case build of
                Inl e \<Rightarrow> (Inl e, s\<lparr>builds := builds s + 1\<rparr>)
              | Inr v \<Rightarrow> (Inr v, s\<lparr>cache := Some (c(key \<mapsto> v)), builds := builds s + 1\<rparr>)))"


definition Act_Dx :: "env \<Rightarrow> int \<Rightarrow> string \<Rightarrow> string \<Rightarrow> real \<Rightarrow> int \<Rightarrow> int \<Rightarrow> int \<Rightarrow> real M" where
  "Act_Dx E Age Sex TableId InterestRate BirthYear RetirementAge Layer =
     memo (BuildCacheKey E ''Dx'' Age Sex TableId InterestRate BirthYear RetirementAge Layer)
       (bindE (Vec_Dx E Age Sex TableId InterestRate BirthYear RetirementAge Layer)
          (\<lambda>vec. py_index vec Age))"

definition Vec_Cx :: "env \<Rightarrow> int \<Rightarrow> string \<Rightarrow> string \<Rightarrow> real \<Rightarrow> int \<Rightarrow> int \<Rightarrow> int \<Rightarrow> py_error + real list" where
  "Vec_Cx E EndAge Sex TableId InterestRate BirthYear RetirementAge Layer =
     (let limit = (if EndAge = -1 then int (MAX_AGE E) else EndAge)
      in if limit < 0 then Inl ValueError
         else bindE (py_div 1 (1 + InterestRate))
                (\<lambda>v. bindE (Vec_tx E limit Sex TableId BirthYear RetirementAge Layer)
                   (\<lambda>tempTx.
                      Inr (fold (\<lambda>i vec. vec[i := excel_round (tempTx ! i * v ^ (i + 1)) (ROUND_CX E)])
                             [0 ..< nat limit]
                             (replicate (nat limit + 1) 0)))))"


text \<open>
  The three backward sums. \<^verbatim>\<open>range(MAX_AGE - 1, -1, -1)\<close> is \<open>rev [0..<MAX_AGE]\<close>. The
  rounding inside \<^verbatim>\<open>Vec_Nx\<close> takes \<^verbatim>\<open>ROUND_DX\<close>, as the source does.
\<close>

definition Vec_Nx :: "env \<Rightarrow> string \<Rightarrow> string \<Rightarrow> real \<Rightarrow> int \<Rightarrow> int \<Rightarrow> int \<Rightarrow> py_error + real list" where
  "Vec_Nx E Sex TableId InterestRate BirthYear RetirementAge Layer =
     bindE (Vec_Dx E (-1) Sex TableId InterestRate BirthYear RetirementAge Layer)
       (\<lambda>tempDx.
          Inr (fold (\<lambda>i vec. vec[i := excel_round (vec ! (i + 1) + tempDx ! i) (ROUND_DX E)])
                 (rev [0 ..< MAX_AGE E])
                 ((replicate (MAX_AGE E + 1) 0)[MAX_AGE E := tempDx ! MAX_AGE E])))"

definition Act_Nx :: "env \<Rightarrow> int \<Rightarrow> string \<Rightarrow> string \<Rightarrow> real \<Rightarrow> int \<Rightarrow> int \<Rightarrow> int \<Rightarrow> real M" where
  "Act_Nx E Age Sex TableId InterestRate BirthYear RetirementAge Layer =
     memo (BuildCacheKey E ''Nx'' Age Sex TableId InterestRate BirthYear RetirementAge Layer)
       (bindE (Vec_Nx E Sex TableId InterestRate BirthYear RetirementAge Layer)
          (\<lambda>vec. py_index vec Age))"

definition Vec_Mx :: "env \<Rightarrow> string \<Rightarrow> string \<Rightarrow> real \<Rightarrow> int \<Rightarrow> int \<Rightarrow> int \<Rightarrow> py_error + real list" where
  "Vec_Mx E Sex TableId InterestRate BirthYear RetirementAge Layer =
     bindE (Vec_Cx E (-1) Sex TableId InterestRate BirthYear RetirementAge Layer)
       (\<lambda>tempCx.
          Inr (fold (\<lambda>i vec. vec[i := excel_round (vec ! (i + 1) + tempCx ! i) (ROUND_MX E)])
                 (rev [0 ..< MAX_AGE E])
                 ((replicate (MAX_AGE E + 1) 0)[MAX_AGE E := tempCx ! MAX_AGE E])))"

definition Act_Mx :: "env \<Rightarrow> int \<Rightarrow> string \<Rightarrow> string \<Rightarrow> real \<Rightarrow> int \<Rightarrow> int \<Rightarrow> int \<Rightarrow> real M" where
  "Act_Mx E Age Sex TableId InterestRate BirthYear RetirementAge Layer =
     memo (BuildCacheKey E ''Mx'' Age Sex TableId InterestRate BirthYear RetirementAge Layer)
       (bindE (Vec_Mx E Sex TableId InterestRate BirthYear RetirementAge Layer)
          (\<lambda>vec. py_index vec Age))"



section \<open>presentvalues.py\<close>

definition Act_DeductionTerm :: "int \<Rightarrow> real \<Rightarrow> py_error + real" where
  "Act_DeductionTerm k InterestRate =
     (if k > 0 then
        bindE (for_each [0 ..< nat k]
                 (\<lambda>l deduction.
                    bindE (py_div (real l / real_of_int k) (1 + (real l / real_of_int k) * InterestRate))
                      (\<lambda>q. Inr (deduction + q)))
                 0)
          (\<lambda>deduction. Inr (deduction * (1 + InterestRate) / real_of_int k))
      else Inr 0)"

text \<open>
  In the functions below the operands are evaluated from left to right, as Python does,
  so that the first exception of the source is the one the model returns. The premium
  module calls them with the defaults \<^verbatim>\<open>BirthYear=0, RetirementAge=0, Layer=1\<close>.
\<close>

definition Act_axn_k :: "env \<Rightarrow> int \<Rightarrow> int \<Rightarrow> string \<Rightarrow> string \<Rightarrow> real \<Rightarrow> int \<Rightarrow> int \<Rightarrow> int \<Rightarrow> int \<Rightarrow> real M" where
  "Act_axn_k E Age n Sex TableId InterestRate k BirthYear RetirementAge Layer =
     (if k > 0 then
        bindM (Act_Dx E Age Sex TableId InterestRate BirthYear RetirementAge Layer) (\<lambda>dx_age.
        bindM (Act_Dx E (Age + n) Sex TableId InterestRate BirthYear RetirementAge Layer) (\<lambda>dx_agen.
        bindM (Act_Nx E Age Sex TableId InterestRate BirthYear RetirementAge Layer) (\<lambda>nx_age.
        bindM (Act_Nx E (Age + n) Sex TableId InterestRate BirthYear RetirementAge Layer) (\<lambda>nx_agen.
        bindM (liftE (py_div (nx_age - nx_agen) dx_age)) (\<lambda>a.
        bindM (liftE (Act_DeductionTerm k InterestRate)) (\<lambda>d.
        bindM (liftE (py_div dx_agen dx_age)) (\<lambda>r.
        returnM (a - d * (1 - r)))))))))
      else returnM 0)"

definition act_nGrAx :: "env \<Rightarrow> int \<Rightarrow> int \<Rightarrow> string \<Rightarrow> string \<Rightarrow> real \<Rightarrow> int \<Rightarrow> int \<Rightarrow> int \<Rightarrow> real M" where
  "act_nGrAx E Age n Sex TableId InterestRate BirthYear RetirementAge Layer =
     bindM (Act_Mx E Age Sex TableId InterestRate BirthYear RetirementAge Layer) (\<lambda>mx_age.
     bindM (Act_Mx E (Age + n) Sex TableId InterestRate BirthYear RetirementAge Layer) (\<lambda>mx_agen.
     bindM (Act_Dx E Age Sex TableId InterestRate BirthYear RetirementAge Layer) (\<lambda>dx_age.
     liftE (py_div (mx_age - mx_agen) dx_age))))"

section \<open>premium\_and\_progress\_values.py\<close>

text \<open>
  The fields \<^verbatim>\<open>x\<close>, \<^verbatim>\<open>n\<close>, \<^verbatim>\<open>t\<close> and \<^verbatim>\<open>sex\<close> of \<^verbatim>\<open>PolicyInputs\<close> and \<^verbatim>\<open>k\<close> of
  \<^verbatim>\<open>TariffInputs\<close> carry a prefix here, the keys of the two result dictionaries as well.
\<close>

record PolicyInputs =
  pol_x :: int
  pol_sex :: string
  pol_n :: int
  pol_t :: int
  sum_insured :: real
  pay_freq :: int

record TariffInputs =
  interest_rate :: real
  mortality_table :: string
  alpha :: real
  beta1 :: real
  gamma1 :: real
  gamma2 :: real
  gamma3 :: real
  tariff_k :: real
  modal_surcharge :: real

record Limits =
  min_age_flex :: int
  min_term_flex :: int

definition max0 :: "int \<Rightarrow> int" where
  "max0 v = (if v > 0 then v else 0)"

record premium =
  out_NormGrossAnnualPrem :: real
  out_GrossAnnualPrem :: real
  out_GrossModalPrem :: real
  out_Pxt :: real


definition calc_premium_calculation :: "env \<Rightarrow> PolicyInputs \<Rightarrow> TariffInputs \<Rightarrow> premium M" where
  "calc_premium_calculation E policy tariff =
     (let x = pol_x policy; sex = pol_sex policy; n = pol_n policy; t = pol_t policy;
          si = sum_insured policy; pf = pay_freq policy;
          i = interest_rate tariff; mt = mortality_table tariff
      in
        bindM (Act_axn_k E x t sex mt i 1 0 0 1) (\<lambda>ax_t.
        bindM (Act_axn_k E x n sex mt i 1 0 0 1) (\<lambda>ax_n.
        bindM (Act_Dx E x sex mt i 0 0 1) (\<lambda>dx_x.
        bindM (Act_Dx E (x + n) sex mt i 0 0 1) (\<lambda>dx_xn.
        bindM (act_nGrAx E x n sex mt i 0 0 1) (\<lambda>a1.
        bindM (liftE (py_div dx_xn dx_x)) (\<lambda>r1.
        let numerator = a1 + r1 + gamma1 tariff * ax_t + gamma2 tariff * (ax_n - ax_t);
            denominator = (1 - beta1 tariff) * ax_t - alpha tariff * real_of_int t
        in
        bindM (liftE (py_div numerator denominator)) (\<lambda>norm_gross_annual_prem.
        let gross_annual_prem = si * norm_gross_annual_prem
        in
        bindM (liftE (py_div (1 + modal_surcharge tariff) (real_of_int pf))) (\<lambda>m.
        let gross_modal_prem = m * (gross_annual_prem + tariff_k tariff)
        in
        bindM (act_nGrAx E x n sex mt i 0 0 1) (\<lambda>a2.
        bindM (liftE (py_div dx_xn dx_x)) (\<lambda>r2.
        bindM (liftE (py_div (a2 + r2 + real_of_int t * alpha tariff * norm_gross_annual_prem) ax_t)) (\<lambda>pxt.
        returnM \<lparr>out_NormGrossAnnualPrem = norm_gross_annual_prem,
                 out_GrossAnnualPrem = gross_annual_prem,
                 out_GrossModalPrem = gross_modal_prem,
                 out_Pxt = pxt\<rparr>))))))))))))"

record row =
  row_k :: int
  row_Axn :: real
  row_axn :: real
  row_axt :: real
  row_kVx_pp :: real
  row_kDRx_pp :: real
  row_kVx_pu :: real
  row_kVx_MRV :: real
  row_Flex_phase :: int
  row_Surrender_deduction :: real
  row_Surrender_value :: real
  row_SumInsured_pu :: real

text \<open>
  One pass of the loop of \<^verbatim>\<open>calc_progression_values\<close>: the row for the year \<open>k\<close>, from
  the values computed before the loop. The \<^verbatim>\<open>try\<close> block around the paid-up sum insured
  turns an exception into \<open>0\<close>.
\<close>

definition progression_row ::
  "env \<Rightarrow> PolicyInputs \<Rightarrow> TariffInputs \<Rightarrow> Limits \<Rightarrow> real \<Rightarrow> real \<Rightarrow> real \<Rightarrow> real \<Rightarrow> real \<Rightarrow> int \<Rightarrow> row M" where
  "progression_row E policy tariff limits pxt gross_annual_prem ax_ratio_n_over_t ax_5_at_x dx_xn k =
     (let x = pol_x policy; sex = pol_sex policy; n = pol_n policy; t = pol_t policy;
          si = sum_insured policy;
          i = interest_rate tariff; mt = mortality_table tariff
      in
        bindM (if k \<le> n then
                 bindM (Act_Dx E (x + k) sex mt i 0 0 1) (\<lambda>dx_xk.
                 bindM (act_nGrAx E (x + k) (max0 (n - k)) sex mt i 0 0 1) (\<lambda>a.
                 bindM (liftE (py_div dx_xn dx_xk)) (\<lambda>r.
                 returnM (a + r))))
               else returnM 0) (\<lambda>Axn.
        bindM (Act_axn_k E (x + k) (max0 (n - k)) sex mt i 1 0 0 1) (\<lambda>axn.
        bindM (Act_axn_k E (x + k) (max0 (t - k)) sex mt i 1 0 0 1) (\<lambda>axt.
        let kVx_pp = Axn - pxt * axt + gamma2 tariff * (axn - ax_ratio_n_over_t * axt);
            kDRx_pp = si * kVx_pp;
            kVx_pu = Axn + gamma3 tariff * axn
        in
        bindM (Act_axn_k E (x + k) (max0 (5 - k)) sex mt i 1 0 0 1) (\<lambda>mr_adj_num.
        bindM (liftE (py_div mr_adj_num ax_5_at_x)) (\<lambda>q.
        let kVx_MRV = kDRx_pp + alpha tariff * real_of_int t * gross_annual_prem * q;
            flex_phase = (if x + k \<ge> min_age_flex limits \<and> k \<ge> n - min_term_flex limits
                          then 1 else 0 :: int);
            surrender_deduction =
              (if k > n \<or> flex_phase = 1 then 0
               else min 150 (max 50 (0.01 * (si - kDRx_pp))));
            surrender_value = max 0 (kVx_MRV - surrender_deduction);
            suminsured_pu =
              (case (if k > n then Inr 0
                     else if k < t then
                            (if kVx_pu \<noteq> 0 then py_div kVx_MRV kVx_pu else Inr 0)
                          else Inr si) of
                 Inl e \<Rightarrow> 0
               | Inr v \<Rightarrow> v)
        in
        returnM \<lparr>row_k = k, row_Axn = Axn, row_axn = axn, row_axt = axt,
                 row_kVx_pp = kVx_pp, row_kDRx_pp = kDRx_pp, row_kVx_pu = kVx_pu,
                 row_kVx_MRV = kVx_MRV, row_Flex_phase = flex_phase,
                 row_Surrender_deduction = surrender_deduction,
                 row_Surrender_value = surrender_value,
                 row_SumInsured_pu = suminsured_pu\<rparr>))))))"

text \<open>\<^verbatim>\<open>for k in ks: rows.append(body(k))\<close> with the cache threaded through.\<close>

fun collect_rows :: "int list \<Rightarrow> (int \<Rightarrow> row M) \<Rightarrow> row list \<Rightarrow> row list M" where
  "collect_rows [] body rows = returnM rows"
| "collect_rows (k # ks) body rows =
     bindM (body k) (\<lambda>r. collect_rows ks body (rows @ [r]))"

definition calc_progression_values ::
  "env \<Rightarrow> PolicyInputs \<Rightarrow> TariffInputs \<Rightarrow> Limits \<Rightarrow> real \<Rightarrow> real \<Rightarrow> int option \<Rightarrow> row list M" where
  "calc_progression_values E policy tariff limits pxt gross_annual_prem max_k_opt =
     (let x = pol_x policy; sex = pol_sex policy; n = pol_n policy; t = pol_t policy;
          i = interest_rate tariff; mt = mortality_table tariff;
          max_k = (case max_k_opt of None \<Rightarrow> n | Some m \<Rightarrow> m)
      in
        bindM (Act_axn_k E x t sex mt i 1 0 0 1) (\<lambda>ax_t0.
        bindM (Act_axn_k E x n sex mt i 1 0 0 1) (\<lambda>ax_n0.
        bindM (liftE (py_div ax_n0 ax_t0)) (\<lambda>ax_ratio_n_over_t.
        bindM (Act_Dx E x sex mt i 0 0 1) (\<lambda>dx_x5.
        bindM (Act_axn_k E x 5 sex mt i 1 0 0 1) (\<lambda>ax_5_at_x.
        bindM (Act_Dx E (x + n) sex mt i 0 0 1) (\<lambda>dx_xn.
        collect_rows [0 .. max_k]
          (progression_row E policy tariff limits pxt gross_annual_prem
             ax_ratio_n_over_t ax_5_at_x dx_xn)
          [])))))))"

section \<open>outfunc.py\<close>

text \<open>
  The second implementation of the premium rate. It calls \<^verbatim>\<open>basfunct.Act_axn_k\<close>,
  \<^verbatim>\<open>basfunct.Act_Dx\<close> and \<^verbatim>\<open>basfunct.act_nGrAx\<close>; \<^verbatim>\<open>basfunct.py\<close> is not among the sources
  at hand, so the three functions are the fields of the record \<open>basfunct\<close>, taken as
  functions of their arguments that return a number or raise. The tariff parameters
  that \<^verbatim>\<open>_get_tariff_params\<close> reads from \<^verbatim>\<open>tariff.csv\<close> are the record \<open>TariffParams\<close>.
\<close>

record basfunct =
  bf_Act_axn_k :: "int \<Rightarrow> int \<Rightarrow> string \<Rightarrow> string \<Rightarrow> real \<Rightarrow> int \<Rightarrow> py_error + real"
  bf_Act_Dx :: "int \<Rightarrow> string \<Rightarrow> string \<Rightarrow> real \<Rightarrow> py_error + real"
  bf_act_nGrAx :: "int \<Rightarrow> int \<Rightarrow> string \<Rightarrow> string \<Rightarrow> real \<Rightarrow> py_error + real"

record TariffParams =
  tp_interest_rate :: real
  tp_mortality_table :: string
  tp_alpha :: real
  tp_beta1 :: real
  tp_gamma1 :: real
  tp_gamma2 :: real
  tp_k :: real

definition NormGrossAnnualPrem ::
  "basfunct \<Rightarrow> TariffParams \<Rightarrow> real \<Rightarrow> int \<Rightarrow> string \<Rightarrow> int \<Rightarrow> int \<Rightarrow> int \<Rightarrow> string \<Rightarrow> py_error + real" where
  "NormGrossAnnualPrem B p sa age sex n t PayFreq tariff =
     (let mt = tp_mortality_table p; ir = tp_interest_rate p
      in
        bindE (bf_Act_axn_k B age t sex mt ir 1) (\<lambda>axn_t.
        bindE (bf_Act_axn_k B age n sex mt ir 1) (\<lambda>axn_n.
        bindE (bf_Act_Dx B (age + n) sex mt ir) (\<lambda>dx_xn.
        bindE (bf_Act_Dx B age sex mt ir) (\<lambda>dx_x.
        bindE (py_div dx_xn dx_x) (\<lambda>dx_ratio.
        bindE (bf_act_nGrAx B age n sex mt ir) (\<lambda>a.
        let numerator = a + dx_ratio + tp_gamma1 p * axn_t + tp_gamma2 p * (axn_n - axn_t);
            denominator = (1 - tp_beta1 p) * axn_t - tp_alpha p * real_of_int t
        in if denominator = 0 then Inl ZeroDivisionError
           else Inr (numerator / denominator))))))))"

definition GrossAnnualPrem ::
  "basfunct \<Rightarrow> TariffParams \<Rightarrow> real \<Rightarrow> int \<Rightarrow> string \<Rightarrow> int \<Rightarrow> int \<Rightarrow> int \<Rightarrow> string \<Rightarrow> py_error + real" where
  "GrossAnnualPrem B p sa age sex n t PayFreq tariff =
     bindE (NormGrossAnnualPrem B p sa age sex n t PayFreq tariff) (\<lambda>rate. Inr (sa * rate))"

section \<open>A small configuration\<close>

text \<open>
  A configuration on which the functions are evaluated: ages \<open>0..5\<close>, one table with a
  column for each sex, and a policy and a tariff over it.
\<close>

definition demo_env :: env where
  "demo_env = \<lparr>ROUND_LX = 2, ROUND_TX = 2, ROUND_DX = 1, ROUND_CX = 3, ROUND_NX = 0,
                ROUND_MX = 3, ROUND_RX = 3, MAX_AGE = 5,
                qx_tables = [''DAV1994_T_M'' \<mapsto> [0.011687, 0.001, 0.002, 0.003, 0.004, 0.005],
                             ''DAV1994_T_F'' \<mapsto> [0.01, 0.001, 0.001, 0.002, 0.002, 0.003]],
                float_str = (\<lambda>r. ''0.5'')\<rparr>"

definition demo_policy :: PolicyInputs where
  "demo_policy = \<lparr>pol_x = 0, pol_sex = ''M'', pol_n = 2, pol_t = 1,
                   sum_insured = 1000, pay_freq = 12\<rparr>"

definition demo_tariff :: TariffInputs where
  "demo_tariff = \<lparr>interest_rate = 0.5, mortality_table = ''DAV1994_T'', alpha = 0.025,
                   beta1 = 0.025, gamma1 = 0.0008, gamma2 = 0.00125, gamma3 = 0.0025,
                   tariff_k = 24, modal_surcharge = 0.05\<rparr>"

definition demo_limits :: Limits where
  "demo_limits = \<lparr>min_age_flex = 60, min_term_flex = 5\<rparr>"

definition demo_limits_early :: Limits where
  "demo_limits_early = \<lparr>min_age_flex = 1, min_term_flex = 1\<rparr>"

text \<open>The rows of the progression table of this policy for \<open>k = 0..3\<close>, one year past the term.\<close>

definition demo_rows :: "row list" where
  "demo_rows =
     [\<lparr>row_k = 0, row_Axn = 223520791 / 500000000, row_axn = 16588753 / 10000000, row_axt = 1,
        row_kVx_pp = - (3589321409 / 304000000000), row_kDRx_pp = - (3589321409 / 304000000),
        row_kVx_pu = 1804755081 / 4000000000, row_kVx_MRV = 0, row_Flex_phase = 0,
        row_Surrender_deduction = 50, row_Surrender_value = 0, row_SumInsured_pu = 0\<rparr>,
      \<lparr>row_k = 1, row_Axn = 439250249 / 658875300, row_axn = 1, row_axt = 0,
        row_kVx_pp = 704118149 / 1054200480, row_kDRx_pp = 17602953725 / 26355012,
        row_kVx_pu = 1763589749 / 2635501200,
        row_kVx_MRV = 117112477718377235 / 172503058914328, row_Flex_phase = 1,
        row_Surrender_deduction = 0,
        row_Surrender_value = 117112477718377235 / 172503058914328, row_SumInsured_pu = 1000\<rparr>,
      \<lparr>row_k = 2, row_Axn = 1, row_axn = 0, row_axt = 0, row_kVx_pp = 1, row_kDRx_pp = 1000,
        row_kVx_pu = 1, row_kVx_MRV = 3479806262887549573 / 3446611511400800, row_Flex_phase = 1,
        row_Surrender_deduction = 0,
        row_Surrender_value = 3479806262887549573 / 3446611511400800, row_SumInsured_pu = 1000\<rparr>,
      \<lparr>row_k = 3, row_Axn = 0, row_axn = 0, row_axt = 0, row_kVx_pp = 0, row_kDRx_pp = 0,
        row_kVx_pu = 0, row_kVx_MRV = 562723042538793 / 73972440025280, row_Flex_phase = 1,
        row_Surrender_deduction = 0,
        row_Surrender_value = 562723042538793 / 73972440025280, row_SumInsured_pu = 0\<rparr>]"

definition fresh :: state where
  "fresh = \<lparr>cache = None, builds = 0\<rparr>"

section \<open>Properties\<close>

subsection \<open>The deduction term\<close>








subsection \<open>Rounding\<close>

lemma pow10_pos: "0 < pow10 d"
  by (simp add: pow10_def)

lemma excel_round_nonneg: "0 \<le> v \<Longrightarrow> 0 \<le> excel_round v d"
proof -
  assume v: "0 \<le> v"
  have "0 \<le> \<bar>v\<bar> * pow10 d + 1 / 2" using pow10_pos[of d] by (simp add: less_imp_le)
  then have "0 \<le> \<lfloor>\<bar>v\<bar> * pow10 d + 1 / 2\<rfloor>" by simp
  then show ?thesis
    using v pow10_pos[of d] by (simp add: excel_round_def sgn_if)
qed

lemma excel_round_pos_eq: "0 \<le> v \<Longrightarrow> excel_round v d = of_int \<lfloor>v * pow10 d + 1 / 2\<rfloor> / pow10 d"
  by (cases "v = 0") (auto simp: excel_round_def sgn_if)

lemma excel_round_mono_nonneg:
  assumes "0 \<le> a" "a \<le> b"
  shows "excel_round a d \<le> excel_round b d"
proof -
  have "a * pow10 d + 1 / 2 \<le> b * pow10 d + 1 / 2"
    using assms pow10_pos[of d] by (simp add: mult_right_mono less_imp_le)
  then have "\<lfloor>a * pow10 d + 1 / 2\<rfloor> \<le> \<lfloor>b * pow10 d + 1 / 2\<rfloor>"
    by (rule floor_mono)
  then show ?thesis
    using assms pow10_pos[of d]
    by (simp add: excel_round_pos_eq divide_right_mono less_imp_le)
qed

lemma excel_round_idem: "0 \<le> v \<Longrightarrow> excel_round (excel_round v d) d = excel_round v d"
proof -
  assume v: "0 \<le> v"
  have nz: "pow10 d \<noteq> 0" using pow10_pos[of d] by simp
  have "excel_round (excel_round v d) d =
          of_int \<lfloor>of_int \<lfloor>v * pow10 d + 1 / 2\<rfloor> / pow10 d * pow10 d + 1 / 2\<rfloor> / pow10 d"
    using excel_round_nonneg[OF v, of d] by (simp add: excel_round_pos_eq v)
  also have "of_int \<lfloor>v * pow10 d + 1 / 2\<rfloor> / pow10 d * pow10 d = (of_int \<lfloor>v * pow10 d + 1 / 2\<rfloor> :: real)"
    using nz by simp
  also have "\<lfloor>(of_int \<lfloor>v * pow10 d + 1 / 2\<rfloor> :: real) + 1 / 2\<rfloor> = \<lfloor>v * pow10 d + 1 / 2\<rfloor>"
    by linarith
  finally show ?thesis by (simp add: excel_round_pos_eq v)
qed

lemma floor_int_half: "\<lfloor>(of_int m :: real) + 1 / 2\<rfloor> = m"
  by linarith

lemma excel_round_exact:
  assumes "0 \<le> v" "v * pow10 d = of_int m"
  shows "excel_round v d = v"
proof -
  have nz: "pow10 d \<noteq> 0" using pow10_pos[of d] by simp
  have "excel_round v d = of_int m / pow10 d"
    using assms by (simp add: excel_round_pos_eq floor_int_half)
  also have "\<dots> = v" using assms(2) nz by (simp add: field_simps)
  finally show ?thesis .
qed

lemma excel_round_small:
  assumes "0 \<le> v" "v * pow10 d < 1 / 2"
  shows "excel_round v d = 0"
proof -
  have "0 \<le> v * pow10 d" using assms(1) pow10_pos[of d] by (simp add: less_imp_le)
  then have "\<lfloor>v * pow10 d + 1 / 2\<rfloor> = 0" using assms(2) by linarith
  then show ?thesis using assms(1) by (simp add: excel_round_pos_eq)
qed

lemma excel_round_million: "excel_round 1000000 d \<le> 1000000"
proof -
  consider "0 \<le> d" | "- 6 \<le> d" "d < 0" | "d < - 6" by linarith
  then show ?thesis
  proof cases
    case 1
    have "(1000000 :: real) * pow10 d = of_int (1000000 * 10 ^ nat d)"
      using 1 by (simp add: pow10_def)
    from excel_round_exact[OF _ this] show ?thesis by simp
  next
    case 2
    define e where "e = nat (- d)"
    have e: "e \<le> 6" using 2 by (simp add: e_def)
    have "(10 :: real) ^ 6 = 10 ^ (6 - e) * 10 ^ e"
      using e by (simp flip: power_add)
    then have "(1000000 :: real) / 10 ^ e = 10 ^ (6 - e)"
      by (simp add: field_simps)
    then have "(1000000 :: real) * pow10 d = of_int (10 ^ (6 - e))"
      using 2 by (simp add: pow10_def e_def)
    from excel_round_exact[OF _ this] show ?thesis by simp
  next
    case 3
    have "(10 :: real) ^ 7 \<le> 10 ^ nat (- d)"
      using 3 by (intro power_increasing) auto
    then have "(1000000 :: real) * pow10 d < 1 / 2"
      using 3 by (simp add: pow10_def field_simps)
    from excel_round_small[OF _ this] show ?thesis by simp
  qed
qed

subsection \<open>Mortality rates and survivors\<close>

lemma for_each_append:
  "for_each (xs @ ys) body s = bindE (for_each xs body s) (for_each ys body)"
  by (induction xs arbitrary: s) (auto simp: bindE_def split: sum.splits)

lemma Act_qx_cases:
  "Act_qx E Age Sex TableId BirthYear RetirementAge Layer =
     (if py_upper (py_strip TableId) \<noteq> ''DAV1994_T'' \<and> py_upper (py_strip TableId) \<noteq> ''DAV2008_T''
      then Inl ValueError
      else case qx_tables E (py_upper (py_strip TableId) @ ''_'' @
                              (if py_upper (py_strip Sex) = ''M'' then ''M'' else ''F'')) of
             None \<Rightarrow> Inl KeyError
           | Some vec \<Rightarrow> if Age < 0 \<or> int (length vec) \<le> Age then Inl IndexError
                         else Inr (vec ! nat Age))"
  by (auto simp: Act_qx_def Let_def split: option.splits)

lemma Act_qx_in_table:
  assumes "Act_qx E Age Sex TableId BirthYear RetirementAge Layer = Inr q"
  shows "\<exists>key vec. qx_tables E key = Some vec \<and> q \<in> set vec"
proof -
  from assms obtain key vec where "qx_tables E key = Some vec" "0 \<le> Age" "Age < int (length vec)"
    "q = vec ! nat Age"
    unfolding Act_qx_cases by (auto split: if_splits option.splits)
  moreover from this have "vec ! nat Age \<in> set vec" by (intro nth_mem) simp
  ultimately show ?thesis by blast
qed

lemma lx_loop:
  assumes rates: "\<And>a q. Act_qx E a Sex Tab b r l = Inr q \<Longrightarrow> 0 \<le> q \<and> q \<le> 1"
  shows "n < L \<Longrightarrow>
     for_each [1 ..< Suc n]
       (\<lambda>i vec. bindE (Act_qx E (int i - 1) Sex Tab b r l)
                   (\<lambda>qx. Inr (vec[i := excel_round (vec ! (i - 1) * (1 - qx)) d])))
       ((replicate L 0)[0 := 1000000]) = Inr vec \<Longrightarrow>
     length vec = L \<and> vec ! 0 = 1000000
     \<and> (\<forall>j\<le>n. 0 \<le> vec ! j \<and> excel_round (vec ! j) d \<le> vec ! j)
     \<and> (\<forall>j. 1 \<le> j \<and> j \<le> n \<longrightarrow> vec ! j \<le> vec ! (j - 1))"
proof (induction n arbitrary: vec)
  case 0
  then show ?case by (auto simp: excel_round_million)
next
  case (Suc n)
  let ?body = "\<lambda>i vec. bindE (Act_qx E (int i - 1) Sex Tab b r l)
                   (\<lambda>qx. Inr (vec[i := excel_round (vec ! (i - 1) * (1 - qx)) d]))"
  have split: "[1 ..< Suc (Suc n)] = [1 ..< Suc n] @ [Suc n]" by simp
  from Suc.prems(2) obtain vec' q where
    run: "for_each [1 ..< Suc n] ?body ((replicate L 0)[0 := 1000000]) = Inr vec'"
    and q: "Act_qx E (int (Suc n) - 1) Sex Tab b r l = Inr q"
    and vec: "vec = vec'[Suc n := excel_round (vec' ! n * (1 - q)) d]"
    unfolding split for_each_append
    by (auto simp: bindE_def split: sum.splits)
  from Suc.prems(1) have nL: "n < L" by simp
  from Suc.IH[OF nL run] have len: "length vec' = L" and v0: "vec' ! 0 = 1000000"
    and inv: "\<forall>j\<le>n. 0 \<le> vec' ! j \<and> excel_round (vec' ! j) d \<le> vec' ! j"
    and mono: "\<forall>j. 1 \<le> j \<and> j \<le> n \<longrightarrow> vec' ! j \<le> vec' ! (j - 1)"
    by auto
  from rates[OF q] have q01: "0 \<le> q" "q \<le> 1" by auto
  from inv have vn: "0 \<le> vec' ! n" "excel_round (vec' ! n) d \<le> vec' ! n" by auto
  define y where "y = vec' ! n * (1 - q)"
  have y: "0 \<le> y" "y \<le> vec' ! n"
    using vn(1) q01 by (auto simp: y_def mult_left_le)
  have ry: "0 \<le> excel_round y d" "excel_round y d \<le> vec' ! n"
    "excel_round (excel_round y d) d \<le> excel_round y d"
    using excel_round_nonneg[OF y(1), of d] excel_round_mono_nonneg[OF y, of d] vn(2)
      excel_round_idem[OF y(1), of d] by auto
  have upd: "\<And>j. j \<le> n \<Longrightarrow> vec ! j = vec' ! j" "vec ! Suc n = excel_round y d"
    using Suc.prems(1) len by (auto simp: vec y_def)
  show ?case
  proof (intro conjI allI impI)
    show "length vec = L" using len vec by simp
    show "vec ! 0 = 1000000" using upd(1)[of 0] v0 by simp
  next
    fix j assume "j \<le> Suc n"
    then show "0 \<le> vec ! j" "excel_round (vec ! j) d \<le> vec ! j"
      using inv ry upd by (cases "j = Suc n"; auto)+
  next
    fix j assume "1 \<le> j \<and> j \<le> Suc n"
    then show "vec ! j \<le> vec ! (j - 1)"
      using mono ry upd by (cases "j = Suc n"; auto)
  qed
qed

lemma Vec_lx_props:
  assumes rates: "\<forall>key col. qx_tables E key = Some col \<longrightarrow> (\<forall>q\<in>set col. 0 \<le> q \<and> q \<le> 1)"
    and run: "Vec_lx E EndAge Sex TableId BirthYear RetirementAge Layer = Inr vec"
  shows "length vec = (if EndAge = -1 then MAX_AGE E else nat EndAge) + 1
       \<and> vec ! 0 = 1000000
       \<and> (\<forall>age. 1 \<le> age \<and> age < length vec \<longrightarrow> vec ! age \<le> vec ! (age - 1))"
proof -
  define limit where "limit = (if EndAge = -1 then int (MAX_AGE E) else EndAge)"
  have r: "\<And>a q. Act_qx E a Sex TableId BirthYear RetirementAge Layer = Inr q \<Longrightarrow> 0 \<le> q \<and> q \<le> 1"
    using rates Act_qx_in_table by blast
  from run have lim: "0 \<le> limit"
    and loop: "for_each [1 ..< Suc (nat limit)]
       (\<lambda>i vec. bindE (Act_qx E (int i - 1) Sex TableId BirthYear RetirementAge Layer)
                   (\<lambda>qx. Inr (vec[i := excel_round (vec ! (i - 1) * (1 - qx)) (ROUND_LX E)])))
       ((replicate (Suc (nat limit)) 0)[0 := 1000000]) = Inr vec"
    by (auto simp: Vec_lx_def Let_def limit_def split: if_splits)
  from lx_loop[of E Sex TableId BirthYear RetirementAge Layer "nat limit" "Suc (nat limit)", OF r _ loop]
  have "length vec = Suc (nat limit)" "vec ! 0 = 1000000"
    "\<forall>j. 1 \<le> j \<and> j \<le> nat limit \<longrightarrow> vec ! j \<le> vec ! (j - 1)"
    by auto
  moreover have "nat limit = (if EndAge = -1 then MAX_AGE E else nat EndAge)"
    by (simp add: limit_def)
  ultimately show ?thesis by auto
qed

lemma demo_rates:
  "\<forall>key col. qx_tables demo_env key = Some col \<longrightarrow> (\<forall>q\<in>set col. 0 \<le> q \<and> q \<le> 1)"
  by (auto simp: demo_env_def split: if_splits)

lemma demo_Vec_lx:
  "Vec_lx demo_env (- 1) ''M'' ''DAV1994_T'' 0 0 1 =
     Inr [1000000, 988313, 98732469 / 100, 24633751 / 25, 98239399 / 100, 97846441 / 100]"
  by code_simp




text \<open>
  C4. If every rate of the loaded tables lies in \<open>[0, 1]\<close>, a vector that \<open>Vec_lx\<close>
  returns, for any end age, starts with \<open>lx[0] = 1000000\<close> and never increases:
  \<open>lx[age] \<le> lx[age-1]\<close> for every age from 1 to the limit.
\<close>

theorem Vec_lx_non_increasing:
  assumes "\<forall>key col. qx_tables E key = Some col \<longrightarrow> (\<forall>q\<in>set col. 0 \<le> q \<and> q \<le> 1)"
    and "Vec_lx E EndAge Sex TableId BirthYear RetirementAge Layer = Inr vec"
  shows "length vec = (if EndAge = -1 then MAX_AGE E else nat EndAge) + 1
       \<and> vec ! 0 = 1000000
       \<and> (\<forall>age. 1 \<le> age \<and> age < length vec \<longrightarrow> vec ! age \<le> vec ! (age - 1))"
  using Vec_lx_props[OF assms] .

theorem Vec_lx_non_increasing_witness:
  "list_all (\<lambda>q. 0 \<le> q \<and> q \<le> 1) [0.011687, 0.001, 0.002, 0.003, 0.004, 0.005 :: real]
   \<and> Vec_lx demo_env (- 1) ''M'' ''DAV1994_T'' 0 0 1 =
       Inr [1000000, 988313, 98732469 / 100, 24633751 / 25, 98239399 / 100, 97846441 / 100]
   \<and> length [1000000, 988313, 98732469 / 100, 24633751 / 25, 98239399 / 100, 97846441 / 100 :: real] = 5 + 1
   \<and> [1000000, 988313, 98732469 / 100, 24633751 / 25, 98239399 / 100, 97846441 / 100] ! 0 = (1000000 :: real)
   \<and> [1000000, 988313, 98732469 / 100, 24633751 / 25, 98239399 / 100, 97846441 / 100 :: real] ! 3
       \<le> [1000000, 988313, 98732469 / 100, 24633751 / 25, 98239399 / 100, 97846441 / 100] ! (3 - 1)"
  using Vec_lx_non_increasing [OF demo_rates demo_Vec_lx] demo_Vec_lx
  by simp

subsection \<open>Deaths\<close>

lemma fold_upd_length: "length (fold (\<lambda>i vec. vec[i := f i vec]) is vec) = length vec"
  by (induction "is" arbitrary: vec) auto

lemma fold_upd_other:
  "j \<notin> set is \<Longrightarrow> fold (\<lambda>i vec. vec[i := f i vec]) is vec ! j = vec ! j"
  by (induction "is" arbitrary: vec) auto

lemma fold_upd_at:
  "distinct is \<Longrightarrow> j \<in> set is \<Longrightarrow> j < length vec \<Longrightarrow>
     fold (\<lambda>i vec. vec[i := g i]) is vec ! j = g j"
proof (induction "is" arbitrary: vec)
  case Nil
  then show ?case by simp
next
  case (Cons i "is")
  show ?case
  proof (cases "j = i")
    case True
    with Cons.prems have "j \<notin> set is" by simp
    then have "fold (\<lambda>i vec. vec[i := g i]) is (vec[i := g i]) ! j = vec[i := g i] ! j"
      by (rule fold_upd_other)
    with True Cons.prems(3) show ?thesis by simp
  next
    case False
    with Cons show ?thesis by simp
  qed
qed

lemma Vec_tx_entries:
  assumes "Vec_tx E EndAge Sex TableId BirthYear RetirementAge Layer = Inr tx"
  shows "\<exists>lx. Vec_lx E (if EndAge = -1 then int (MAX_AGE E) else EndAge)
                  Sex TableId BirthYear RetirementAge Layer = Inr lx
            \<and> length tx = (if EndAge = -1 then MAX_AGE E else nat EndAge) + 1
            \<and> (\<forall>i < (if EndAge = -1 then MAX_AGE E else nat EndAge).
                  tx ! i = excel_round (lx ! i - lx ! (i + 1)) (ROUND_TX E))
            \<and> tx ! (if EndAge = -1 then MAX_AGE E else nat EndAge) = 0"
proof -
  define limit where "limit = (if EndAge = -1 then int (MAX_AGE E) else EndAge)"
  have nl: "nat limit = (if EndAge = -1 then MAX_AGE E else nat EndAge)"
    by (simp add: limit_def)
  from assms obtain lx where lx: "Vec_lx E limit Sex TableId BirthYear RetirementAge Layer = Inr lx"
    and tx: "tx = fold (\<lambda>i vec. vec[i := excel_round (lx ! i - lx ! (i + 1)) (ROUND_TX E)])
                   [0 ..< nat limit] (replicate (nat limit + 1) 0)"
    by (auto simp: Vec_tx_def Let_def limit_def[symmetric] bindE_def split: if_splits sum.splits)
  have len: "length tx = nat limit + 1"
    unfolding tx by (simp add: fold_upd_length)
  have ent: "tx ! i = excel_round (lx ! i - lx ! (i + 1)) (ROUND_TX E)" if "i < nat limit" for i
    unfolding tx using that by (subst fold_upd_at) auto
  have "replicate (nat limit + 1) (0::real) ! nat limit = 0"
    by (rule nth_replicate) simp
  then have last: "tx ! nat limit = 0"
    unfolding tx by (subst fold_upd_other) auto
  show ?thesis
    using lx len ent last unfolding nl[symmetric] limit_def[symmetric] by blast
qed

lemma Act_tx_zero:
  assumes "Act_tx E Age Sex TableId BirthYear RetirementAge Layer = Inr v"
  shows "v = 0"
proof -
  from assms obtain tx where tx: "Vec_tx E Age Sex TableId BirthYear RetirementAge Layer = Inr tx"
    and v: "py_index tx Age = Inr v"
    by (auto simp: Act_tx_def bindE_def split: sum.splits)
  from tx have ok: "Age = -1 \<or> 0 \<le> Age"
    by (auto simp: Vec_tx_def Let_def split: if_splits)
  from Vec_tx_entries[OF tx]
  have len: "length tx = (if Age = -1 then MAX_AGE E else nat Age) + 1"
    and last: "tx ! (if Age = -1 then MAX_AGE E else nat Age) = 0"
    by auto
  from ok show ?thesis
  proof
    assume "Age = -1"
    with v len last show ?thesis by (simp add: py_index_def)
  next
    assume "0 \<le> Age"
    with v len last show ?thesis by (auto simp: py_index_def split: if_splits)
  qed
qed

lemma Vec_tx_nonneg:
  assumes rates: "\<forall>key col. qx_tables E key = Some col \<longrightarrow> (\<forall>q\<in>set col. 0 \<le> q \<and> q \<le> 1)"
    and run: "Vec_tx E EndAge Sex TableId BirthYear RetirementAge Layer = Inr tx"
    and i: "i < length tx"
  shows "0 \<le> tx ! i"
proof -
  define L where "L = (if EndAge = -1 then MAX_AGE E else nat EndAge)"
  from Vec_tx_entries[OF run] obtain lx where
    lx: "Vec_lx E (if EndAge = -1 then int (MAX_AGE E) else EndAge) Sex TableId BirthYear RetirementAge Layer = Inr lx"
    and len: "length tx = L + 1"
    and ent: "\<forall>i<L. tx ! i = excel_round (lx ! i - lx ! (i + 1)) (ROUND_TX E)"
    and last: "tx ! L = 0"
    unfolding L_def by blast
  from run have ok: "EndAge = -1 \<or> 0 \<le> EndAge"
    by (auto simp: Vec_tx_def Let_def split: if_splits)
  from Vec_lx_props[OF rates lx] ok
  have llen: "length lx = L + 1"
    and mono: "\<forall>age. 1 \<le> age \<and> age < length lx \<longrightarrow> lx ! age \<le> lx ! (age - 1)"
    by (auto simp: L_def split: if_splits)
  show ?thesis
  proof (cases "i < L")
    case True
    with mono llen have "lx ! (i + 1) \<le> lx ! i" by (metis Suc_eq_plus1 add_diff_cancel_right' le_add2 add_less_cancel_right)
    then have "0 \<le> excel_round (lx ! i - lx ! (i + 1)) (ROUND_TX E)"
      by (intro excel_round_nonneg) simp
    with ent True show ?thesis by simp
  next
    case False
    with i len have "i = L" by simp
    with last show ?thesis by simp
  qed
qed

subsection \<open>The backward sums\<close>

lemma backward_sum:
  "m < length vec \<Longrightarrow>
   length (fold (\<lambda>i vec. vec[i := excel_round (vec ! (i + 1) + src ! i) d]) (rev [0 ..< m]) vec) = length vec
   \<and> (\<forall>j. m \<le> j \<longrightarrow>
         fold (\<lambda>i vec. vec[i := excel_round (vec ! (i + 1) + src ! i) d]) (rev [0 ..< m]) vec ! j = vec ! j)
   \<and> (\<forall>j < m.
         fold (\<lambda>i vec. vec[i := excel_round (vec ! (i + 1) + src ! i) d]) (rev [0 ..< m]) vec ! j =
         excel_round (fold (\<lambda>i vec. vec[i := excel_round (vec ! (i + 1) + src ! i) d]) (rev [0 ..< m]) vec ! (j + 1)
                      + src ! j) d)"
proof (induction m arbitrary: vec)
  case 0
  then show ?case by simp
next
  case (Suc m)
  let ?g = "\<lambda>i vec. vec[i := excel_round (vec ! (i + 1) + src ! i) d]"
  let ?vec' = "?g m vec"
  let ?r = "fold ?g (rev [0 ..< m]) ?vec'"
  have r: "fold ?g (rev [0 ..< Suc m]) vec = ?r" by simp
  from Suc.prems have m: "m < length ?vec'" by simp
  from Suc.IH[OF m] have len: "length ?r = length vec"
    and keep: "\<And>j. m \<le> j \<Longrightarrow> ?r ! j = ?vec' ! j"
    and rec: "\<And>j. j < m \<Longrightarrow> ?r ! j = excel_round (?r ! (j + 1) + src ! j) d"
    by auto
  have at_m: "?r ! m = excel_round (?r ! (m + 1) + src ! m) d"
    using keep[of m] keep[of "m + 1"] Suc.prems by simp
  show ?case
    unfolding r
  proof (intro conjI allI impI)
    show "length ?r = length vec" by (rule len)
  next
    fix j assume "Suc m \<le> j"
    then show "?r ! j = vec ! j" using keep[of j] by simp
  next
    fix j assume "j < Suc m"
    then show "?r ! j = excel_round (?r ! (j + 1) + src ! j) d"
      using rec[of j] at_m by (cases "j = m") auto
  qed
qed

lemma Vec_Dx_length:
  assumes "Vec_Dx E EndAge Sex TableId InterestRate BirthYear RetirementAge Layer = Inr dx"
  shows "length dx = (if EndAge = -1 then MAX_AGE E else nat EndAge) + 1"
  using assms
  by (auto simp: Vec_Dx_def Let_def bindE_def py_div_def fold_upd_length split: if_splits sum.splits)

lemma Vec_Nx_recurrence:
  assumes "Vec_Nx E Sex TableId InterestRate BirthYear RetirementAge Layer = Inr nx"
  shows "\<exists>dx. Vec_Dx E (- 1) Sex TableId InterestRate BirthYear RetirementAge Layer = Inr dx
            \<and> length dx = MAX_AGE E + 1 \<and> length nx = MAX_AGE E + 1
            \<and> nx ! MAX_AGE E = dx ! MAX_AGE E
            \<and> (\<forall>i < MAX_AGE E. nx ! i = excel_round (nx ! (i + 1) + dx ! i) (ROUND_DX E))"
proof -
  from assms obtain dx where dx: "Vec_Dx E (- 1) Sex TableId InterestRate BirthYear RetirementAge Layer = Inr dx"
    and nx: "nx = fold (\<lambda>i vec. vec[i := excel_round (vec ! (i + 1) + dx ! i) (ROUND_DX E)])
                   (rev [0 ..< MAX_AGE E])
                   ((replicate (MAX_AGE E + 1) 0)[MAX_AGE E := dx ! MAX_AGE E])"
    by (auto simp: Vec_Nx_def bindE_def split: sum.splits)
  let ?init = "(replicate (MAX_AGE E + 1) (0::real))[MAX_AGE E := dx ! MAX_AGE E]"
  have m: "MAX_AGE E < length ?init"
    by (simp only: length_list_update length_replicate)
  from backward_sum[OF m, of dx "ROUND_DX E"]
  have "length nx = length ?init" "nx ! MAX_AGE E = ?init ! MAX_AGE E"
    "\<forall>i < MAX_AGE E. nx ! i = excel_round (nx ! (i + 1) + dx ! i) (ROUND_DX E)"
    unfolding nx by auto
  moreover have "?init ! MAX_AGE E = dx ! MAX_AGE E"
    by (rule nth_list_update_eq) simp
  moreover have "length ?init = MAX_AGE E + 1"
    by (simp only: length_list_update length_replicate)
  ultimately show ?thesis using dx Vec_Dx_length[OF dx] by auto
qed

subsection \<open>Values of the small configuration\<close>

lemma Vec_lx_full: "Vec_lx E (int (MAX_AGE E)) = Vec_lx E (- 1)"
  by (intro ext) (simp add: Vec_lx_def)

lemma Vec_Dx_full: "Vec_Dx E (int (MAX_AGE E)) = Vec_Dx E (- 1)"
  by (intro ext) (simp add: Vec_Dx_def)

lemma demo_consts:
  "MAX_AGE demo_env = 5" "ROUND_LX demo_env = 2" "ROUND_TX demo_env = 2" "ROUND_DX demo_env = 1"
  "ROUND_CX demo_env = 3" "ROUND_NX demo_env = 0" "ROUND_MX demo_env = 3" "ROUND_RX demo_env = 3"
  "float_str demo_env r = ''0.5''"
  by (simp_all add: demo_env_def)

lemma demo_upt: "[0 ..< 5] = [0, 1, 2, 3, 4]" "[0 ..< 6] = [0, 1, 2, 3, 4, 5]"
  "[0 ..< 1] = [0]" "[0 ..< 2] = [0, 1]" "[0 ..< 3] = [0, 1, 2]"
  by (simp_all add: upt_rec)

lemma demo_Vec_lx_5:
  "Vec_lx demo_env 5 ''M'' ''DAV1994_T'' 0 0 1 =
     Inr [1000000, 988313, 98732469 / 100, 24633751 / 25, 98239399 / 100, 97846441 / 100]"
  using demo_Vec_lx Vec_lx_full[of demo_env] by (simp add: demo_consts)

lemma demo_Vec_lx_1: "Vec_lx demo_env 1 ''M'' ''DAV1994_T'' 0 0 1 = Inr [1000000, 988313]"
  by code_simp

lemma demo_Vec_tx_0: "Vec_tx demo_env 0 ''M'' ''DAV1994_T'' 0 0 1 = Inr [0]"
  by code_simp

lemma demo_Vec_tx_full:
  "Vec_tx demo_env (- 1) ''M'' ''DAV1994_T'' 0 0 1 =
     Inr [11687, 98831 / 100, 39493 / 20, 59121 / 20, 196479 / 50, 0]"
  apply (simp add: Vec_tx_def demo_consts demo_Vec_lx_5 bindE_def demo_upt eval_nat_numeral)
  apply (simp add: excel_round_def pow10_def)
  done

lemma demo_Vec_Dx_full:
  "Vec_Dx demo_env (- 1) ''M'' ''DAV1994_T'' (1 / 2) 0 0 1 =
     Inr [1000000, 6588753 / 10, 438811, 1459778 / 5, 1940531 / 10, 1288513 / 10]"
  apply (simp add: Vec_Dx_def demo_consts demo_Vec_lx_5 bindE_def py_div_def demo_upt eval_nat_numeral)
  apply (simp add: excel_round_def pow10_def)
  done

lemma demo_Vec_Nx:
  "Vec_Nx demo_env ''M'' ''DAV1994_T'' (1 / 2) 0 0 1 =
     Inr [27125463 / 10, 17125463 / 10, 1053671, 614860, 1614522 / 5, 1288513 / 10]"
  apply (simp add: Vec_Nx_def demo_consts demo_Vec_Dx_full bindE_def demo_upt eval_nat_numeral)
  apply (simp add: excel_round_def pow10_def)
  done

subsection \<open>The vectors Nx and tx\<close>

text \<open>
  C2. A vector \<open>nx\<close> that \<open>Vec_Nx\<close> returns is the backward sum of the full \<open>Dx\<close> vector:
  \<open>nx[MAX_AGE] = dx[MAX_AGE]\<close> and \<open>nx[i] = round(nx[i+1] + dx[i])\<close> for every \<open>i < MAX_AGE\<close>,
  rounded right after the addition. The number of digits of that rounding is
  \<^verbatim>\<open>ROUND_DX\<close>, the precision of \<open>Dx\<close>; \<^verbatim>\<open>ROUND_NX\<close> is not used.
\<close>

theorem Vec_Nx_backward_recurrence:
  assumes "Vec_Nx E Sex TableId InterestRate BirthYear RetirementAge Layer = Inr nx"
  shows "\<exists>dx. Vec_Dx E (- 1) Sex TableId InterestRate BirthYear RetirementAge Layer = Inr dx
            \<and> length dx = MAX_AGE E + 1 \<and> length nx = MAX_AGE E + 1
            \<and> nx ! MAX_AGE E = dx ! MAX_AGE E
            \<and> (\<forall>i < MAX_AGE E. nx ! i = excel_round (nx ! (i + 1) + dx ! i) (ROUND_DX E))"
  using Vec_Nx_recurrence[OF assms] .

theorem Vec_Nx_backward_recurrence_witness:
  "Vec_Nx demo_env ''M'' ''DAV1994_T'' (1 / 2) 0 0 1 =
     Inr [27125463 / 10, 17125463 / 10, 1053671, 614860, 1614522 / 5, 1288513 / 10]
   \<and> Vec_Dx demo_env (- 1) ''M'' ''DAV1994_T'' (1 / 2) 0 0 1 =
     Inr [1000000, 6588753 / 10, 438811, 1459778 / 5, 1940531 / 10, 1288513 / 10]
   \<and> [27125463 / 10, 17125463 / 10, 1053671, 614860, 1614522 / 5, 1288513 / 10 :: real] ! 5 =
       [1000000, 6588753 / 10, 438811, 1459778 / 5, 1940531 / 10, 1288513 / 10] ! 5
   \<and> [27125463 / 10, 17125463 / 10, 1053671, 614860, 1614522 / 5, 1288513 / 10 :: real] ! 4 =
       excel_round ([27125463 / 10, 17125463 / 10, 1053671, 614860, 1614522 / 5, 1288513 / 10] ! (4 + 1)
                    + [1000000, 6588753 / 10, 438811, 1459778 / 5, 1940531 / 10, 1288513 / 10] ! 4)
         (ROUND_DX demo_env)"
proof -
  from Vec_Nx_backward_recurrence [OF demo_Vec_Nx] obtain dx where
    dx: "Vec_Dx demo_env (- 1) ''M'' ''DAV1994_T'' (1 / 2) 0 0 1 = Inr dx"
    and last: "[27125463 / 10, 17125463 / 10, 1053671, 614860, 1614522 / 5, 1288513 / 10] ! MAX_AGE demo_env
                = dx ! MAX_AGE demo_env"
    and rec: "\<forall>i < MAX_AGE demo_env.
        [27125463 / 10, 17125463 / 10, 1053671, 614860, 1614522 / 5, 1288513 / 10] ! i =
        excel_round ([27125463 / 10, 17125463 / 10, 1053671, 614860, 1614522 / 5, 1288513 / 10] ! (i + 1)
                     + dx ! i) (ROUND_DX demo_env)"
    by blast
  from dx demo_Vec_Dx_full
  have dx_eq: "dx = [1000000, 6588753 / 10, 438811, 1459778 / 5, 1940531 / 10, 1288513 / 10]"
    by simp
  have "(4::nat) < MAX_AGE demo_env" by (simp add: demo_consts)
  with rec have
    "[27125463 / 10, 17125463 / 10, 1053671, 614860, 1614522 / 5, 1288513 / 10] ! 4 =
     excel_round ([27125463 / 10, 17125463 / 10, 1053671, 614860, 1614522 / 5, 1288513 / 10] ! (4 + 1)
                  + dx ! 4) (ROUND_DX demo_env)"
    by blast
  with last demo_Vec_Nx demo_Vec_Dx_full show ?thesis
    unfolding dx_eq by (simp add: demo_consts)
qed

text \<open>
  With \<^verbatim>\<open>ROUND_DX = 1\<close> and \<^verbatim>\<open>ROUND_NX = 0\<close> the entry at age 4 is \<open>322904.4\<close>, not the
  \<open>322904\<close> that rounding to the precision of \<open>Nx\<close> would give.
\<close>

theorem Vec_Nx_own_precision_counterexample:
  "Vec_Nx demo_env ''M'' ''DAV1994_T'' (1 / 2) 0 0 1 =
     Inr [27125463 / 10, 17125463 / 10, 1053671, 614860, 1614522 / 5, 1288513 / 10]
   \<and> Vec_Dx demo_env (- 1) ''M'' ''DAV1994_T'' (1 / 2) 0 0 1 =
     Inr [1000000, 6588753 / 10, 438811, 1459778 / 5, 1940531 / 10, 1288513 / 10]
   \<and> [27125463 / 10, 17125463 / 10, 1053671, 614860, 1614522 / 5, 1288513 / 10 :: real] ! 4 \<noteq>
       excel_round ([27125463 / 10, 17125463 / 10, 1053671, 614860, 1614522 / 5, 1288513 / 10] ! 5
                    + [1000000, 6588753 / 10, 438811, 1459778 / 5, 1940531 / 10, 1288513 / 10] ! 4)
         (ROUND_NX demo_env)"
  by (simp add: demo_Vec_Nx demo_Vec_Dx_full demo_consts excel_round_def pow10_def)

text \<open>
  C3. Inside a vector of \<open>Vec_tx\<close> every entry below the limit is the rounded difference of
  survivors (\<open>Vec_tx_entries\<close>) and is not negative when the rates lie in \<open>[0, 1]\<close>
  (\<open>Vec_tx_nonneg\<close>); the entry at the limit itself is never written and stays \<open>0\<close>.
  \<open>Act_tx Age\<close> builds the vector up to \<open>Age\<close> only and reads that last entry, so it
  returns \<open>0\<close> whenever it returns (\<open>Act_tx_zero\<close>). At age 0 of the small configuration
  the rounded difference \<open>lx[0] - lx[1]\<close> is \<open>11687\<close>, and \<open>Act_tx\<close> returns \<open>0\<close>.
\<close>

theorem Act_tx_failing_input:
  "Act_tx demo_env 0 ''M'' ''DAV1994_T'' 0 0 1 = Inr 0
   \<and> Vec_lx demo_env 1 ''M'' ''DAV1994_T'' 0 0 1 = Inr [1000000, 988313]
   \<and> excel_round ([1000000, 988313] ! 0 - [1000000, 988313] ! 1) (ROUND_TX demo_env) = 11687"
  by (simp add: Act_tx_def demo_Vec_tx_0 demo_Vec_lx_1 bindE_def py_index_def demo_consts
      excel_round_def pow10_def)

subsection \<open>The memoized accessors\<close>











lemma py_index_top: "py_index xs (int (length xs) - 1) = py_index xs (- 1)"
  by (cases xs) (auto simp: py_index_def)

lemma Vec_tx_full: "Vec_tx E (int (MAX_AGE E)) = Vec_tx E (- 1)"
  by (intro ext) (simp add: Vec_tx_def)

lemma demo_Vec_lx_2: "Vec_lx demo_env 2 ''M'' ''DAV1994_T'' 0 0 1 = Inr [1000000, 988313, 98732469 / 100]"
  by code_simp

lemma demo_Vec_lx_0: "Vec_lx demo_env 0 ''M'' ''DAV1994_T'' 0 0 1 = Inr [1000000]"
  by code_simp

lemma demo_Vec_Dx_0: "Vec_Dx demo_env 0 ''M'' ''DAV1994_T'' (1 / 2) 0 0 1 = Inr [1000000]"
  apply (simp add: Vec_Dx_def demo_consts demo_Vec_lx_0 bindE_def py_div_def demo_upt eval_nat_numeral)
  apply (simp add: excel_round_def pow10_def)
  done

lemma demo_Vec_Dx_1: "Vec_Dx demo_env 1 ''M'' ''DAV1994_T'' (1 / 2) 0 0 1 = Inr [1000000, 6588753 / 10]"
  apply (simp add: Vec_Dx_def demo_consts demo_Vec_lx_1 bindE_def py_div_def demo_upt eval_nat_numeral)
  apply (simp add: excel_round_def pow10_def)
  done

lemma demo_Vec_Dx_2: "Vec_Dx demo_env 2 ''M'' ''DAV1994_T'' (1 / 2) 0 0 1 = Inr [1000000, 6588753 / 10, 438811]"
  apply (simp add: Vec_Dx_def demo_consts demo_Vec_lx_2 bindE_def py_div_def demo_upt eval_nat_numeral)
  apply (simp add: excel_round_def pow10_def)
  done

lemma demo_Vec_Dx_5:
  "Vec_Dx demo_env 5 ''M'' ''DAV1994_T'' (1 / 2) 0 0 1 =
     Inr [1000000, 6588753 / 10, 438811, 1459778 / 5, 1940531 / 10, 1288513 / 10]"
  using demo_Vec_Dx_full Vec_Dx_full[of demo_env] by (simp add: demo_consts)


lemma demo_Vec_tx_5:
  "Vec_tx demo_env 5 ''M'' ''DAV1994_T'' 0 0 1 = Inr [11687, 98831 / 100, 39493 / 20, 59121 / 20, 196479 / 50, 0]"
  using demo_Vec_tx_full Vec_tx_full[of demo_env] by (simp add: demo_consts)


lemma demo_Vec_Cx_full:
  "Vec_Cx demo_env (- 1) ''M'' ''DAV1994_T'' (1 / 2) 0 0 1 =
     Inr [7791333 / 1000, 439249 / 1000, 585081 / 1000, 583911 / 1000, 129369 / 250, 0]"
  apply (simp add: Vec_Cx_def demo_consts demo_Vec_tx_5 bindE_def py_div_def demo_upt eval_nat_numeral)
  apply (simp add: excel_round_def pow10_def)
  done

lemma demo_Vec_Mx:
  "Vec_Mx demo_env ''M'' ''DAV1994_T'' (1 / 2) 0 0 1 =
     Inr [198341 / 20, 2125717 / 1000, 421617 / 250, 1101387 / 1000, 129369 / 250, 0]"
  apply (simp add: Vec_Mx_def demo_consts demo_Vec_Cx_full bindE_def demo_upt eval_nat_numeral)
  apply (simp add: excel_round_def pow10_def)
  done


lemma demo_keys:
  "BuildCacheKey demo_env kind 0 ''M'' ''DAV1994_T'' r 0 0 1 = kind @ ''_0_M_DAV1994_T_0.5_0_0_1''"
  "BuildCacheKey demo_env kind 1 ''M'' ''DAV1994_T'' r 0 0 1 = kind @ ''_1_M_DAV1994_T_0.5_0_0_1''"
  "BuildCacheKey demo_env kind 2 ''M'' ''DAV1994_T'' r 0 0 1 = kind @ ''_2_M_DAV1994_T_0.5_0_0_1''"
  "BuildCacheKey demo_env kind 5 ''M'' ''DAV1994_T'' r 0 0 1 = kind @ ''_5_M_DAV1994_T_0.5_0_0_1''"
  "BuildCacheKey demo_env kind (- 1) ''M'' ''DAV1994_T'' r 0 0 1 = kind @ ''_-1_M_DAV1994_T_0.5_0_0_1''"
  by (simp_all add: BuildCacheKey_def str_int_def demo_consts)







subsection \<open>The age -1\<close>






subsection \<open>The progression table\<close>

lemma bindM_InrE:
  assumes "bindM m f s = (Inr v, s')"
  obtains a s1 where "m s = (Inr a, s1)" "f a s1 = (Inr v, s')"
  using assms by (auto simp: bindM_def split: prod.splits sum.splits)

lemma returnM_InrE:
  assumes "returnM x s = (Inr v, s')"
  obtains "v = x" "s' = s"
  using assms by (auto simp: returnM_def)

lemma progression_row_fields:
  assumes "progression_row E policy tariff limits pxt gross_annual_prem ratio ax5 dx_xn k s = (Inr r, s')"
  shows "row_k r = k
    \<and> row_kDRx_pp r = sum_insured policy * row_kVx_pp r
    \<and> row_Flex_phase r =
         (if pol_x policy + k \<ge> min_age_flex limits \<and> k \<ge> pol_n policy - min_term_flex limits
          then 1 else 0)
    \<and> row_Surrender_deduction r =
         (if k > pol_n policy \<or> row_Flex_phase r = 1 then 0
          else min 150 (max 50 (0.01 * (sum_insured policy - row_kDRx_pp r))))
    \<and> row_Surrender_value r = max 0 (row_kVx_MRV r - row_Surrender_deduction r)
    \<and> row_SumInsured_pu r =
         (if k > pol_n policy then 0
          else if k < pol_t policy then
                 (if row_kVx_pu r \<noteq> 0 then row_kVx_MRV r / row_kVx_pu r else 0)
               else sum_insured policy)"
  using assms unfolding progression_row_def Let_def
  apply (elim bindM_InrE returnM_InrE)
  apply (simp add: py_div_def)
  done

lemma collect_rows_result:
  assumes "collect_rows ks body acc s = (Inr rows, s')"
  shows "\<exists>new. rows = acc @ new \<and> list_all2 (\<lambda>k r. \<exists>s1 s2. body k s1 = (Inr r, s2)) ks new"
  using assms
proof (induction ks arbitrary: acc s)
  case Nil
  then show ?case by (auto elim: returnM_InrE)
next
  case (Cons k ks)
  from Cons.prems obtain r s1 where
    r: "body k s = (Inr r, s1)" and rest: "collect_rows ks body (acc @ [r]) s1 = (Inr rows, s')"
    by (auto elim: bindM_InrE)
  from Cons.IH[OF rest] obtain new where
    "rows = (acc @ [r]) @ new" "list_all2 (\<lambda>k r. \<exists>s1 s2. body k s1 = (Inr r, s2)) ks new"
    by blast
  with r show ?case by (intro exI[of _ "r # new"]) auto
qed

lemma progression_rows:
  assumes "fst (calc_progression_values E policy tariff limits pxt gross_annual_prem max_k s) = Inr rows"
  shows "list_all2
           (\<lambda>k r. \<exists>ratio ax5 dx_xn s1 s2.
               progression_row E policy tariff limits pxt gross_annual_prem ratio ax5 dx_xn k s1 = (Inr r, s2))
           [0 .. (case max_k of None \<Rightarrow> pol_n policy | Some m \<Rightarrow> m)] rows"
proof -
  from assms obtain s' where
    run: "calc_progression_values E policy tariff limits pxt gross_annual_prem max_k s = (Inr rows, s')"
    by (cases "calc_progression_values E policy tariff limits pxt gross_annual_prem max_k s") auto
  from run obtain ratio ax5 dx_xn s1 where
    "collect_rows [0 .. (case max_k of None \<Rightarrow> pol_n policy | Some m \<Rightarrow> m)]
       (progression_row E policy tariff limits pxt gross_annual_prem ratio ax5 dx_xn) [] s1 = (Inr rows, s')"
    unfolding calc_progression_values_def Let_def by (elim bindM_InrE) blast
  from collect_rows_result[OF this]
  have "list_all2 (\<lambda>k r. \<exists>s1 s2.
          progression_row E policy tariff limits pxt gross_annual_prem ratio ax5 dx_xn k s1 = (Inr r, s2))
          [0 .. (case max_k of None \<Rightarrow> pol_n policy | Some m \<Rightarrow> m)] rows"
    by simp
  then show ?thesis by (rule list_all2_mono) blast
qed

lemma progression_row_in_set:
  assumes "fst (calc_progression_values E policy tariff limits pxt gross_annual_prem max_k s) = Inr rows"
    and "r \<in> set rows"
  shows "\<exists>k ratio ax5 dx_xn s1 s2. 0 \<le> k \<and> k \<le> (case max_k of None \<Rightarrow> pol_n policy | Some m \<Rightarrow> m)
           \<and> progression_row E policy tariff limits pxt gross_annual_prem ratio ax5 dx_xn k s1 = (Inr r, s2)"
proof -
  from assms(2) obtain j where j: "j < length rows" "r = rows ! j"
    by (auto simp: in_set_conv_nth)
  let ?ks = "[0 .. (case max_k of None \<Rightarrow> pol_n policy | Some m \<Rightarrow> m)]"
  from progression_rows[OF assms(1)] j
  have len: "length ?ks = length rows"
    and at: "\<exists>ratio ax5 dx_xn s1 s2.
       progression_row E policy tariff limits pxt gross_annual_prem ratio ax5 dx_xn (?ks ! j) s1 = (Inr r, s2)"
    by (auto simp: list_all2_conv_all_nth)
  from j len have "?ks ! j \<in> set ?ks" by (intro nth_mem) simp
  then have "0 \<le> ?ks ! j" "?ks ! j \<le> (case max_k of None \<Rightarrow> pol_n policy | Some m \<Rightarrow> m)"
    by auto
  with at show ?thesis by blast
qed

lemma list_all2_map_eq: "list_all2 (\<lambda>k r. f r = k) ks rs \<Longrightarrow> map f rs = ks"
  by (induction ks rs rule: list_all2_induct) auto

lemma progression_row_numbers:
  assumes "fst (calc_progression_values E policy tariff limits pxt gross_annual_prem max_k s) = Inr rows"
  shows "map row_k rows = [0 .. (case max_k of None \<Rightarrow> pol_n policy | Some m \<Rightarrow> m)]"
proof -
  have "list_all2 (\<lambda>k r. row_k r = k) [0 .. (case max_k of None \<Rightarrow> pol_n policy | Some m \<Rightarrow> m)] rows"
    using progression_rows[OF assms]
    by (rule list_all2_mono) (use progression_row_fields in blast)
  then show ?thesis by (rule list_all2_map_eq)
qed

text \<open>
  C6. When the progression calculation returns its rows, there is one row for every \<open>k\<close>
  from 0 to \<open>max_k\<close> (\<open>n\<close> when \<open>max_k\<close> is not given), and in every row the surrender
  deduction lies in \<open>[0, 150]\<close>. The flex-phase flag is 1 exactly when
  \<open>x + k \<ge> min_age_flex\<close> and \<open>k \<ge> n - min_term_flex\<close>. The deduction is \<open>0\<close> whenever \<open>k > n\<close>
  or the flag is set, and otherwise it is \<open>0.01 * (sum_insured - kDRx_pp)\<close> clamped to
  \<open>[50, 150]\<close>.
\<close>

theorem surrender_deduction_range:
  assumes "fst (calc_progression_values E policy tariff limits pxt gross_annual_prem max_k s) = Inr rows"
    and "r \<in> set rows"
  shows "map row_k rows = [0 .. (case max_k of None \<Rightarrow> pol_n policy | Some m \<Rightarrow> m)]
    \<and> 0 \<le> row_Surrender_deduction r \<and> row_Surrender_deduction r \<le> 150
    \<and> row_Flex_phase r =
         (if pol_x policy + row_k r \<ge> min_age_flex limits
             \<and> row_k r \<ge> pol_n policy - min_term_flex limits then 1 else 0)
    \<and> (row_k r > pol_n policy \<or> row_Flex_phase r = 1 \<longrightarrow> row_Surrender_deduction r = 0)
    \<and> (\<not> (row_k r > pol_n policy \<or> row_Flex_phase r = 1) \<longrightarrow>
          row_Surrender_deduction r = min 150 (max 50 (0.01 * (sum_insured policy - row_kDRx_pp r))))"
proof -
  from progression_row_in_set[OF assms] obtain k ratio ax5 dx_xn s1 s2 where
    "progression_row E policy tariff limits pxt gross_annual_prem ratio ax5 dx_xn k s1 = (Inr r, s2)"
    by blast
  from progression_row_fields[OF this] progression_row_numbers[OF assms(1)]
  show ?thesis by auto
qed


subsection \<open>The small configuration, with the cache\<close>

lemma DeductionTerm_one: "Act_DeductionTerm 1 i = Inr 0"
  by (simp add: Act_DeductionTerm_def bindE_def py_div_def)

lemma demo_upto: "[0 .. (0::int)] = [0]" "[0 .. (2::int)] = [0, 1, 2]"
  by (simp_all add: upto.simps)

lemmas demo_run = bindM_def returnM_def liftE_def py_div_def bindE_def py_index_def
  memo_def ensure_cache_def InitializeCache_def Act_Dx_def Act_Nx_def Act_Mx_def
  Act_axn_k_def act_nGrAx_def demo_keys demo_Vec_Dx_0 demo_Vec_Dx_1 demo_Vec_Dx_2 demo_Vec_Dx_5
  demo_Vec_Nx demo_Vec_Mx DeductionTerm_one max0_def Let_def

lemma demo_premium:
  "fst (calc_premium_calculation demo_env demo_policy demo_tariff fresh) =
     Inr \<lparr>out_NormGrossAnnualPrem = 3589321409 / 7600000000,
          out_GrossAnnualPrem = 3589321409 / 7600000,
          out_GrossModalPrem = 26402049863 / 608000000,
          out_Pxt = 139489962337 / 304000000000\<rparr>"
  by (simp add: calc_premium_calculation_def demo_policy_def demo_tariff_def demo_run fresh_def)

lemma demo_Vec_lx_3:
  "Vec_lx demo_env 3 ''M'' ''DAV1994_T'' 0 0 1 = Inr [1000000, 988313, 98732469 / 100, 24633751 / 25]"
  by code_simp

lemma demo_Vec_Dx_3:
  "Vec_Dx demo_env 3 ''M'' ''DAV1994_T'' (1 / 2) 0 0 1 = Inr [1000000, 6588753 / 10, 438811, 1459778 / 5]"
  apply (simp add: Vec_Dx_def demo_consts demo_Vec_lx_3 bindE_def py_div_def upt_rec eval_nat_numeral)
  apply (simp add: excel_round_def pow10_def)
  done

lemma demo_key_3:
  "BuildCacheKey demo_env kind 3 ''M'' ''DAV1994_T'' r 0 0 1 = kind @ ''_3_M_DAV1994_T_0.5_0_0_1''"
  by (simp add: BuildCacheKey_def str_int_def demo_consts)

lemma demo_upto_3: "[0 .. (3::int)] = [0, 1, 2, 3]"
  by (simp add: upto.simps)

lemma demo_progression:
  "fst (calc_progression_values demo_env demo_policy demo_tariff demo_limits_early
          (139489962337 / 304000000000) (3589321409 / 7600000) (Some 3) fresh) = Inr demo_rows"
  by (simp add: calc_progression_values_def progression_row_def demo_policy_def demo_tariff_def
      demo_limits_early_def demo_rows_def demo_run demo_Vec_Dx_3 demo_key_3 demo_upto_3 fresh_def)

lemma demo_rows_members:
  "demo_rows ! 0 \<in> set demo_rows" "demo_rows ! 1 \<in> set demo_rows" "demo_rows ! 3 \<in> set demo_rows"
  by (simp_all add: demo_rows_def)

theorem surrender_deduction_range_witness:
  "fst (calc_progression_values demo_env demo_policy demo_tariff demo_limits_early
          (139489962337 / 304000000000) (3589321409 / 7600000) (Some 3) fresh) = Inr demo_rows
   \<and> map row_k demo_rows = [0, 1, 2, 3]
   \<and> demo_rows ! 0 \<in> set demo_rows
   \<and> row_k (demo_rows ! 0) \<le> pol_n demo_policy \<and> row_Flex_phase (demo_rows ! 0) = 0
   \<and> row_Surrender_deduction (demo_rows ! 0) =
       min 150 (max 50 (0.01 * (sum_insured demo_policy - row_kDRx_pp (demo_rows ! 0))))
   \<and> 0 \<le> row_Surrender_deduction (demo_rows ! 0) \<and> row_Surrender_deduction (demo_rows ! 0) \<le> 150
   \<and> demo_rows ! 1 \<in> set demo_rows
   \<and> row_Flex_phase (demo_rows ! 1) = 1 \<and> row_Surrender_deduction (demo_rows ! 1) = 0
   \<and> demo_rows ! 3 \<in> set demo_rows
   \<and> row_k (demo_rows ! 3) > pol_n demo_policy \<and> row_Surrender_deduction (demo_rows ! 3) = 0"
  using surrender_deduction_range [OF demo_progression demo_rows_members(1)]
    surrender_deduction_range [OF demo_progression demo_rows_members(2)]
    surrender_deduction_range [OF demo_progression demo_rows_members(3)]
    demo_progression demo_rows_members
  by (simp add: demo_rows_def demo_policy_def demo_limits_early_def demo_upto_3)


subsection \<open>The premium\<close>













text \<open>
  The rate of \<^verbatim>\<open>outfunc.py\<close> checks its denominator before it divides: once the factors
  are defined, \<open>NormGrossAnnualPrem\<close> and \<open>GrossAnnualPrem\<close> raise exactly when the
  denominator is zero, and return the rate and the sum insured times the rate otherwise.
\<close>

lemma NormGrossAnnualPrem_outcome:
  assumes "bf_Act_axn_k B age t sex (tp_mortality_table p) (tp_interest_rate p) 1 = Inr ax_t"
    and "bf_Act_axn_k B age n sex (tp_mortality_table p) (tp_interest_rate p) 1 = Inr ax_n"
    and "bf_Act_Dx B (age + n) sex (tp_mortality_table p) (tp_interest_rate p) = Inr dx_xn"
    and "bf_Act_Dx B age sex (tp_mortality_table p) (tp_interest_rate p) = Inr dx_x"
    and "dx_x \<noteq> 0"
    and "bf_act_nGrAx B age n sex (tp_mortality_table p) (tp_interest_rate p) = Inr nGrAx"
  shows "NormGrossAnnualPrem B p sa age sex n t PayFreq tariff =
           (if (1 - tp_beta1 p) * ax_t - tp_alpha p * real_of_int t = 0 then Inl ZeroDivisionError
            else Inr ((nGrAx + dx_xn / dx_x + tp_gamma1 p * ax_t + tp_gamma2 p * (ax_n - ax_t))
                      / ((1 - tp_beta1 p) * ax_t - tp_alpha p * real_of_int t)))"
    and "GrossAnnualPrem B p sa age sex n t PayFreq tariff =
           (if (1 - tp_beta1 p) * ax_t - tp_alpha p * real_of_int t = 0 then Inl ZeroDivisionError
            else Inr (sa * ((nGrAx + dx_xn / dx_x + tp_gamma1 p * ax_t + tp_gamma2 p * (ax_n - ax_t))
                            / ((1 - tp_beta1 p) * ax_t - tp_alpha p * real_of_int t))))"
  using assms
  by (simp_all add: GrossAnnualPrem_def NormGrossAnnualPrem_def Let_def bindE_def py_div_def)

end
